theory Spec2Isabelle
  imports Main "HOL-Library.AList"
begin

section \<open>Session manager of neko: a shallow embedding\<close>

text \<open>
  The two Go files of package \<open>session\<close> (the authentication gate and the session
  manager) are embedded function by function. Go strings are byte sequences and are
  modelled as \<open>string\<close>; an \<open>error\<close> value is the message it was built from; a
  function that returns \<open>(T, error)\<close> returns \<open>error + T\<close>; mutation of the manager
  is explicit state passing; a panic is a value of the result.
\<close>

subsection \<open>Errors and panics\<close>

datatype error = Errorf string
  \<comment> \<open>\<open>fmt.Errorf(msg)\<close>; every other error value is identified with its message too\<close>

datatype panic = InterfaceConversion | IndexOutOfRange
  \<comment> \<open>a failed type assertion \<open>x.(*SessionCtx)\<close>; \<open>payload[0]\<close> on an empty slice\<close>

subsection \<open>The inbound request\<close>

text \<open>
  Of \<open>*http.Request\<close> the code reads the parsed query (\<open>r.URL.Query()\<close>, a
  \<open>map[string][]string\<close>), the header (same shape, keys in canonical form) and the
  cookies the request carries, in the order they were sent.
\<close>

record Request =
  Query :: "string \<rightharpoonup> string list"
  Header :: "string \<rightharpoonup> string list"
  Cookies :: "(string \<times> string) list"

definition Values_Get :: "(string \<rightharpoonup> string list) \<Rightarrow> string \<Rightarrow> string" where
  \<comment> \<open>\<open>url.Values.Get\<close> and \<open>http.Header.Get\<close>: the first value of the key, else the empty string\<close>
  "Values_Get vs key = (case vs key of None \<Rightarrow> [] | Some [] \<Rightarrow> [] | Some (v # _) \<Rightarrow> v)"

datatype cookie_error = ErrNoCookie

definition Cookie :: "Request \<Rightarrow> string \<Rightarrow> cookie_error + (string \<times> string)" where
  \<comment> \<open>\<open>r.Cookie(name)\<close>: the first cookie of that name, or \<open>ErrNoCookie\<close>\<close>
  "Cookie r name = (case find (\<lambda>c. fst c = name) (Cookies r) of
                      None \<Rightarrow> Inl ErrNoCookie
                    | Some c \<Rightarrow> Inr c)"

definition upper_byte :: "char \<Rightarrow> char" where
  "upper_byte c = (let n = (of_char c :: nat)
                   in if 97 \<le> n \<and> n \<le> 122 then char_of (n - 32) else c)"

definition ToUpper :: "string \<Rightarrow> string" where
  \<comment> \<open>\<open>strings.ToUpper\<close> on ASCII bytes. On a byte outside ASCII Go's result differs from
      this one, but no rune outside ASCII has \<open>B\<close>, \<open>E\<close>, \<open>A\<close> or \<open>R\<close> as its upper case,
      so the comparison with \<open>BEARER\<close> below has the same outcome.\<close>
  "ToUpper s = map upper_byte s"

definition token_name :: string where
  "token_name = ''password''"

definition getToken :: "Request \<Rightarrow> string" where
  "getToken r =
     (let token = Values_Get (Query r) token_name in
      if token \<noteq> [] then token
      else
        let bearer = Values_Get (Header r) ''Authorization'' in
        if length bearer > 7 \<and> ToUpper (take 6 bearer) = ''BEARER'' then drop 7 bearer
        else
          case Cookie r token_name of
            Inr cookie \<Rightarrow> snd cookie
          | Inl err \<Rightarrow> [])"

subsection \<open>Sessions and the manager\<close>

record Config =
  AdminPassword :: string
  Password :: string
  ImplicitHosting :: bool

record MemberProfile =
  Secret :: string
  Name :: string
  IsAdmin :: bool

text \<open>
  A \<open>*SessionCtx\<close> is an address into the manager's store of session objects, or the
  null pointer. A value of the interface type \<open>types.Session\<close> (and of \<open>interface{}\<close>
  where a session is passed as an event payload) is either the nil interface or a
  \<open>*SessionCtx\<close>, which may itself be null.
\<close>

type_synonym addr = nat

datatype SessionPtr = Null | Ptr addr

datatype Session = NilSession | Dyn SessionPtr

text \<open>
  Modelled from the spec: the fields of \<open>SessionCtx\<close> beyond those \<open>Create\<close> sets
  (the struct declaration and its methods \<open>IsConnected\<close> and \<open>IsAdmin\<close> are not
  among the sources). The spec gives a session a boolean \<open>connected\<close>, "mutated by the
  transport layer", and an admin flag held in its profile. The logger and the
  back-reference to the manager carry no state of their own and are left out.
\<close>

record SessionCtx =
  session_id :: string
  profile :: MemberProfile
  connected :: bool

definition IsConnected :: "SessionCtx \<Rightarrow> bool" where
  \<comment> \<open>Modelled from the spec: the method is not among the sources; a session "reports
      connected" when its flag is set.\<close>
  "IsConnected s = connected s"

definition IsAdmin_session :: "SessionCtx \<Rightarrow> bool" where
  \<comment> \<open>Modelled from the spec: the method \<open>IsAdmin\<close> is not among the sources; the
      admin sessions are those "whose profile is admin".\<close>
  "IsAdmin_session s = IsAdmin (profile s)"

text \<open>
  The manager. \<open>store\<close> and \<open>next_addr\<close> are the memory in which \<open>&SessionCtx{...}\<close>
  allocates; \<open>members\<close> is the Go map from id to \<open>*SessionCtx\<close>, kept as an
  association list whose order stands for the order in which \<open>range\<close> happens to
  visit the map (Go leaves it unspecified). \<open>streaming\<close> is the state of the capture
  manager, \<open>emmiter\<close> the listeners in the order they were registered, and \<open>trace\<close>
  the calls made to collaborators, in program order. The two mutexes are not modelled:
  every operation runs to completion.
\<close>

datatype wrapper =
    Wrap_Host nat
  | Wrap_HostCleared nat
  | Wrap_Connected nat
  | Wrap_Disconnected nat
  | Wrap_ReceivingStarted nat
  | Wrap_ReceivingStopped nat
  \<comment> \<open>the closure each \<open>On...\<close> method registers; the number names the caller's listener\<close>

datatype 'v action =
    Emitted string "Session list"
  | Listener nat Session
  | StartStreamCall
  | StopStreamCall
  | SendCall addr 'v
  | DisconnectCall addr string
  | Warn error string

record 'v SessionManagerCtx =
  store :: "addr \<Rightarrow> SessionCtx"
  next_addr :: addr
  host :: Session
  streaming :: bool
  config :: Config
  members :: "(string \<times> addr) list"
  emmiter :: "(string \<times> wrapper) list"
  trace :: "'v action list"

subsection \<open>Collaborators\<close>

text \<open>
  Modelled from the spec: the capture manager behind the interface \<open>CaptureManager\<close>
  (\<open>Streaming() bool\<close>, \<open>StartStream()\<close>, \<open>StopStream()\<close>), which is not among the
  sources: it is streaming from a start call until the next stop call.
\<close>

definition Streaming :: "'v SessionManagerCtx \<Rightarrow> bool" where
  \<comment> \<open>Modelled from the spec: "is streaming".\<close>
  "Streaming m = streaming m"

definition StartStream :: "'v SessionManagerCtx \<Rightarrow> 'v SessionManagerCtx" where
  \<comment> \<open>Modelled from the spec: "start streaming"; the call is recorded in the trace.\<close>
  "StartStream m = m\<lparr>streaming := True, trace := trace m @ [StartStreamCall]\<rparr>"

definition StopStream :: "'v SessionManagerCtx \<Rightarrow> 'v SessionManagerCtx" where
  \<comment> \<open>Modelled from the spec: "stop streaming"; the call is recorded in the trace.\<close>
  "StopStream m = m\<lparr>streaming := False, trace := trace m @ [StopStreamCall]\<rparr>"

text \<open>
  Modelled from the spec: \<open>SessionCtx.Send\<close> and \<open>SessionCtx.Disconnect\<close>, which are
  not among the sources. Each may fail; whether it does is a parameter that may depend
  on the state the call is made in. The call is recorded in the trace. The flag
  \<open>connected\<close> is changed by the transport layer, not by the call itself.
\<close>

type_synonym 'v send_result = "'v SessionManagerCtx \<Rightarrow> addr \<Rightarrow> 'v \<Rightarrow> error option"

type_synonym 'v disconnect_result = "'v SessionManagerCtx \<Rightarrow> addr \<Rightarrow> string \<Rightarrow> error option"

definition Send :: "'v send_result \<Rightarrow> addr \<Rightarrow> 'v \<Rightarrow> 'v SessionManagerCtx
    \<Rightarrow> error option \<times> 'v SessionManagerCtx" where
  \<comment> \<open>Modelled from the spec: a delivery attempt, which may fail.\<close>
  "Send snd_res session v m = (snd_res m session v, m\<lparr>trace := trace m @ [SendCall session v]\<rparr>)"

definition Disconnect :: "'v disconnect_result \<Rightarrow> addr \<Rightarrow> string \<Rightarrow> 'v SessionManagerCtx
    \<Rightarrow> error option \<times> 'v SessionManagerCtx" where
  \<comment> \<open>Modelled from the spec: the forced disconnect with a reason, which may fail.\<close>
  "Disconnect disc_res session reason m =
     (disc_res m session reason, m\<lparr>trace := trace m @ [DisconnectCall session reason]\<rparr>)"

text \<open>
  Modelled from the spec: \<open>utils.ArrayIn\<close>, which is not among the sources: a
  "membership test against the provided id collection". Its second result is
  discarded by both callers and is left out.
\<close>

definition ArrayIn :: "string \<Rightarrow> string list \<Rightarrow> bool" where
  \<comment> \<open>Modelled from the spec: membership of the id in the collection.\<close>
  "ArrayIn val array \<longleftrightarrow> val \<in> set array"

subsection \<open>Registry\<close>

definition Create :: "string \<Rightarrow> MemberProfile \<Rightarrow> 'v SessionManagerCtx
    \<Rightarrow> Session \<times> 'v SessionManagerCtx" where
  "Create id' profile' m =
     (let session = next_addr m;
          m1 = m\<lparr>store := (store m)(session :=
                    \<lparr>session_id = id', profile = profile', connected = False\<rparr>),
                 next_addr := Suc session\<rparr>;
          m2 = m1\<lparr>members := AList.update id' session (members m1)\<rparr>
      in (Dyn (Ptr session), m2))"

definition Get :: "string \<Rightarrow> 'v SessionManagerCtx \<Rightarrow> Session \<times> bool" where
  \<comment> \<open>a missing key reads as the null \<open>*SessionCtx\<close>, returned inside the interface\<close>
  "Get id' m = (case map_of (members m) id' of
                  None \<Rightarrow> (Dyn Null, False)
                | Some session \<Rightarrow> (Dyn (Ptr session), True))"

definition Delete :: "'v disconnect_result \<Rightarrow> string \<Rightarrow> 'v SessionManagerCtx
    \<Rightarrow> error option \<times> 'v SessionManagerCtx" where
  "Delete disc_res id' m =
     (case map_of (members m) id' of
        None \<Rightarrow> (Some (Errorf ''Member not found.''), m)
      | Some session \<Rightarrow>
          let m1 = m\<lparr>members := AList.delete id' (members m)\<rparr> in
          if IsConnected (store m1 session)
          then Disconnect disc_res session ''member deleted'' m1
          else (None, m1))"

definition HasConnectedMembers :: "'v SessionManagerCtx \<Rightarrow> bool" where
  "HasConnectedMembers m = list_ex (\<lambda>(id', session). IsConnected (store m session)) (members m)"

definition Members :: "'v SessionManagerCtx \<Rightarrow> Session list" where
  "Members m = map (\<lambda>(id', session). Dyn (Ptr session)) (members m)"

subsection \<open>Events\<close>

text \<open>
  The emitter comes from a library: \<open>On\<close> appends a listener to those of the event,
  \<open>Emit\<close> calls the listeners of the event one after the other, in the order of
  registration, with the payload it was given. A panic in a listener ends the emission
  and unwinds through the caller. A caller's listener is opaque: its call is recorded
  in the trace and leaves the manager as it is.
\<close>

definition On :: "string \<Rightarrow> wrapper \<Rightarrow> (string \<times> wrapper) list \<Rightarrow> (string \<times> wrapper) list" where
  "On evt l e = e @ [(evt, l)]"

definition call_listener :: "nat \<Rightarrow> Session list \<Rightarrow> 'v SessionManagerCtx
    \<Rightarrow> panic option \<times> 'v SessionManagerCtx" where
  \<comment> \<open>\<open>listener(payload[0].(*SessionCtx))\<close>, the last statement of every wrapper\<close>
  "call_listener listener payload m =
     (case payload of
        [] \<Rightarrow> (Some IndexOutOfRange, m)
      | x # _ \<Rightarrow>
          (case x of
             NilSession \<Rightarrow> (Some InterfaceConversion, m)
           | Dyn p \<Rightarrow> (None, m\<lparr>trace := trace m @ [Listener listener (Dyn p)]\<rparr>)))"

fun call_wrapper :: "wrapper \<Rightarrow> Session list \<Rightarrow> 'v SessionManagerCtx
    \<Rightarrow> panic option \<times> 'v SessionManagerCtx" where
  "call_wrapper (Wrap_Host listener) payload m = call_listener listener payload m"
| "call_wrapper (Wrap_HostCleared listener) payload m = call_listener listener payload m"
| "call_wrapper (Wrap_Connected listener) payload m =
     (let m1 = (if \<not> Streaming m then StartStream m else m)
      in call_listener listener payload m1)"
| "call_wrapper (Wrap_Disconnected listener) payload m =
     (let m1 = (if Streaming m \<and> \<not> HasConnectedMembers m then StopStream m else m)
      in call_listener listener payload m1)"
| "call_wrapper (Wrap_ReceivingStarted listener) payload m = call_listener listener payload m"
| "call_wrapper (Wrap_ReceivingStopped listener) payload m = call_listener listener payload m"

fun call_listeners :: "wrapper list \<Rightarrow> Session list \<Rightarrow> 'v SessionManagerCtx
    \<Rightarrow> panic option \<times> 'v SessionManagerCtx" where
  "call_listeners [] payload m = (None, m)"
| "call_listeners (l # ls) payload m =
     (case call_wrapper l payload m of
        (Some p, m1) \<Rightarrow> (Some p, m1)
      | (None, m1) \<Rightarrow> call_listeners ls payload m1)"

definition listeners_of :: "string \<Rightarrow> (string \<times> wrapper) list \<Rightarrow> wrapper list" where
  "listeners_of evt e = map snd (filter (\<lambda>l. fst l = evt) e)"

definition Emit :: "string \<Rightarrow> Session list \<Rightarrow> 'v SessionManagerCtx
    \<Rightarrow> panic option \<times> 'v SessionManagerCtx" where
  "Emit evt payload m =
     call_listeners (listeners_of evt (emmiter m)) payload
       (m\<lparr>trace := trace m @ [Emitted evt payload]\<rparr>)"

definition OnHost :: "nat \<Rightarrow> 'v SessionManagerCtx \<Rightarrow> 'v SessionManagerCtx" where
  "OnHost listener m = m\<lparr>emmiter := On ''host'' (Wrap_Host listener) (emmiter m)\<rparr>"

definition OnHostCleared :: "nat \<Rightarrow> 'v SessionManagerCtx \<Rightarrow> 'v SessionManagerCtx" where
  "OnHostCleared listener m =
     m\<lparr>emmiter := On ''host_cleared'' (Wrap_HostCleared listener) (emmiter m)\<rparr>"

definition OnConnected :: "nat \<Rightarrow> 'v SessionManagerCtx \<Rightarrow> 'v SessionManagerCtx" where
  "OnConnected listener m =
     m\<lparr>emmiter := On ''connected'' (Wrap_Connected listener) (emmiter m)\<rparr>"

definition OnDisconnected :: "nat \<Rightarrow> 'v SessionManagerCtx \<Rightarrow> 'v SessionManagerCtx" where
  "OnDisconnected listener m =
     m\<lparr>emmiter := On ''disconnected'' (Wrap_Disconnected listener) (emmiter m)\<rparr>"

definition OnReceivingStarted :: "nat \<Rightarrow> 'v SessionManagerCtx \<Rightarrow> 'v SessionManagerCtx" where
  "OnReceivingStarted listener m =
     m\<lparr>emmiter := On ''receiving_started'' (Wrap_ReceivingStarted listener) (emmiter m)\<rparr>"

definition OnReceivingStopped :: "nat \<Rightarrow> 'v SessionManagerCtx \<Rightarrow> 'v SessionManagerCtx" where
  "OnReceivingStopped listener m =
     m\<lparr>emmiter := On ''receiving_stopped'' (Wrap_ReceivingStopped listener) (emmiter m)\<rparr>"

subsection \<open>Host\<close>

definition HasHost :: "'v SessionManagerCtx \<Rightarrow> bool" where
  "HasHost m = (host m \<noteq> NilSession)"

definition SetHost :: "Session \<Rightarrow> 'v SessionManagerCtx \<Rightarrow> panic option \<times> 'v SessionManagerCtx" where
  "SetHost host' m = Emit ''host'' [host'] (m\<lparr>host := host'\<rparr>)"

definition GetHost :: "'v SessionManagerCtx \<Rightarrow> Session" where
  "GetHost m = host m"

definition ClearHost :: "'v SessionManagerCtx \<Rightarrow> panic option \<times> 'v SessionManagerCtx" where
  "ClearHost m =
     (let host' = host m;
          m1 = m\<lparr>host := NilSession\<rparr>
      in Emit ''host_cleared'' [host'] m1)"

subsection \<open>Broadcast\<close>

text \<open>
  \<open>exclude\<close> has type \<open>interface{}\<close>: it is nil (\<open>None\<close>) or a collection of ids.
  A failed delivery is logged as a warning and the loop goes on.
\<close>

fun Broadcast_range :: "'v send_result \<Rightarrow> 'v \<Rightarrow> string list option \<Rightarrow> (string \<times> addr) list
    \<Rightarrow> 'v SessionManagerCtx \<Rightarrow> 'v SessionManagerCtx" where
  "Broadcast_range snd_res v exclude [] m = m"
| "Broadcast_range snd_res v exclude ((id', session) # rest) m =
     (if \<not> IsConnected (store m session) then Broadcast_range snd_res v exclude rest m
      else if (case exclude of None \<Rightarrow> False | Some ids \<Rightarrow> ArrayIn id' ids)
      then Broadcast_range snd_res v exclude rest m
      else
        (case Send snd_res session v m of
           (Some err, m1) \<Rightarrow>
             Broadcast_range snd_res v exclude rest
               (m1\<lparr>trace := trace m1 @ [Warn err ''broadcasting event has failed'']\<rparr>)
         | (None, m1) \<Rightarrow> Broadcast_range snd_res v exclude rest m1))"

definition Broadcast :: "'v send_result \<Rightarrow> 'v \<Rightarrow> string list option
    \<Rightarrow> 'v SessionManagerCtx \<Rightarrow> 'v SessionManagerCtx" where
  "Broadcast snd_res v exclude m = Broadcast_range snd_res v exclude (members m) m"

fun AdminBroadcast_range :: "'v send_result \<Rightarrow> 'v \<Rightarrow> string list option \<Rightarrow> (string \<times> addr) list
    \<Rightarrow> 'v SessionManagerCtx \<Rightarrow> 'v SessionManagerCtx" where
  "AdminBroadcast_range snd_res v exclude [] m = m"
| "AdminBroadcast_range snd_res v exclude ((id', session) # rest) m =
     (if \<not> IsConnected (store m session) \<or> \<not> IsAdmin_session (store m session)
      then AdminBroadcast_range snd_res v exclude rest m
      else if (case exclude of None \<Rightarrow> False | Some ids \<Rightarrow> ArrayIn id' ids)
      then AdminBroadcast_range snd_res v exclude rest m
      else
        (case Send snd_res session v m of
           (Some err, m1) \<Rightarrow>
             AdminBroadcast_range snd_res v exclude rest
               (m1\<lparr>trace := trace m1 @ [Warn err ''broadcasting admin event has failed'']\<rparr>)
         | (None, m1) \<Rightarrow> AdminBroadcast_range snd_res v exclude rest m1))"

definition AdminBroadcast :: "'v send_result \<Rightarrow> 'v \<Rightarrow> string list option
    \<Rightarrow> 'v SessionManagerCtx \<Rightarrow> 'v SessionManagerCtx" where
  "AdminBroadcast snd_res v exclude m = AdminBroadcast_range snd_res v exclude (members m) m"

subsection \<open>Construction and authentication\<close>

definition zero_SessionCtx :: SessionCtx where
  \<comment> \<open>what an address holds before anything is allocated there\<close>
  "zero_SessionCtx =
     \<lparr>session_id = [], profile = \<lparr>Secret = [], Name = [], IsAdmin = False\<rparr>, connected = False\<rparr>"

definition New :: "bool \<Rightarrow> Config \<Rightarrow> 'v SessionManagerCtx" where
  \<comment> \<open>\<open>capture\<close> is the state the capture manager is handed over in\<close>
  "New capture config' =
     (let manager = \<lparr>store = (\<lambda>_. zero_SessionCtx), next_addr = 0, host = NilSession,
                      streaming = capture, config = config', members = [],
                      emmiter = [], trace = []\<rparr>;
          manager1 = snd (Create ''admin''
                       \<lparr>Secret = AdminPassword config', Name = ''Administrator'', IsAdmin = True\<rparr>
                       manager);
          manager2 = snd (Create ''user''
                       \<lparr>Secret = Password config', Name = ''User'', IsAdmin = False\<rparr>
                       manager1)
      in manager2)"

definition manager_New :: "string \<Rightarrow> bool \<Rightarrow> 'v SessionManagerCtx
    \<Rightarrow> Session \<times> 'v SessionManagerCtx" where
  \<comment> \<open>Modelled from the spec: the method \<open>manager.New(id, isAdmin)\<close> that \<open>Authenticate\<close>
      calls, which is not among the sources: "register a new Session via
      SessionRegistry.Create with the minted id and a profile marking only the isAdmin
      flag (no display name, no stored secret)".\<close>
  "manager_New id' isAdmin m = Create id' \<lparr>Secret = [], Name = [], IsAdmin = isAdmin\<rparr> m"

text \<open>
  \<open>utils.NewUID\<close> is the identifier minter, a parameter: it returns an identifier or
  an error.
\<close>

definition Authenticate :: "(nat \<Rightarrow> error + string) \<Rightarrow> Request \<Rightarrow> 'v SessionManagerCtx
    \<Rightarrow> (error + Session) \<times> 'v SessionManagerCtx" where
  "Authenticate NewUID r m =
     (let token = getToken r in
      if token = [] then (Inl (Errorf ''no password provided''), m)
      else
        let isAdmin = (token = AdminPassword (config m));
            isUser = (token = Password (config m)) in
        if \<not> isAdmin \<and> \<not> isUser then (Inl (Errorf ''invalid password''), m)
        else
          (case NewUID 32 of
             Inl err \<Rightarrow> (Inl err, m)
           | Inr id' \<Rightarrow> (case manager_New id' isAdmin m of (session, m1) \<Rightarrow> (Inr session, m1))))"

subsection \<open>Notions the properties are stated with\<close>

definition wf :: "'v SessionManagerCtx \<Rightarrow> bool" where
  \<comment> \<open>what a Go map and a Go heap guarantee: one entry per key, every pointer allocated\<close>
  "wf m \<longleftrightarrow> distinct (map fst (members m)) \<and> (\<forall>e \<in> set (members m). snd e < next_addr m)"

fun bearer_scheme :: "string \<Rightarrow> bool" where
  \<comment> \<open>the six letters of \<open>Bearer\<close>, each in either case\<close>
  "bearer_scheme [c0, c1, c2, c3, c4, c5] =
     (c0 \<in> {CHR ''B'', CHR ''b''} \<and> c1 \<in> {CHR ''E'', CHR ''e''} \<and> c2 \<in> {CHR ''A'', CHR ''a''} \<and>
      c3 \<in> {CHR ''R'', CHR ''r''} \<and> c4 \<in> {CHR ''E'', CHR ''e''} \<and> c5 \<in> {CHR ''R'', CHR ''r''})"
| "bearer_scheme _ = False"

definition spec_Bearer_form :: "string \<Rightarrow> bool" where
  \<comment> \<open>the header form in the spec's words: "exactly 6-character scheme + space + token"\<close>
  "spec_Bearer_form h \<longleftrightarrow> bearer_scheme (take 6 h) \<and> length h > 6 \<and> h ! 6 = CHR '' ''"

definition password_param :: "Request \<Rightarrow> string" where
  "password_param r = Values_Get (Query r) token_name"

definition authorization :: "Request \<Rightarrow> string" where
  "authorization r = Values_Get (Header r) ''Authorization''"

definition password_cookie :: "Request \<Rightarrow> string option" where
  "password_cookie r = (case Cookie r token_name of Inl _ \<Rightarrow> None | Inr c \<Rightarrow> Some (snd c))"

definition code_Bearer_form :: "string \<Rightarrow> bool" where
  \<comment> \<open>the header form the properties below are proved for: the scheme, any seventh
      character, and at least one character after it\<close>
  "code_Bearer_form h \<longleftrightarrow> length h > 7 \<and> bearer_scheme (take 6 h)"

fun sends_of :: "'v action list \<Rightarrow> (addr \<times> 'v) list" where
  "sends_of [] = []"
| "sends_of (SendCall a v # tr) = (a, v) # sends_of tr"
| "sends_of (_ # tr) = sends_of tr"

fun emitted_of :: "'v action list \<Rightarrow> (string \<times> Session list) list" where
  "emitted_of [] = []"
| "emitted_of (Emitted evt payload # tr) = (evt, payload) # emitted_of tr"
| "emitted_of (_ # tr) = emitted_of tr"

definition recipient :: "(addr \<Rightarrow> SessionCtx) \<Rightarrow> string list option \<Rightarrow> string \<times> addr \<Rightarrow> bool" where
  \<comment> \<open>connected, and the id not in the exclusion collection (if there is one)\<close>
  "recipient st exclude e \<longleftrightarrow>
     connected (st (snd e)) \<and> (case exclude of None \<Rightarrow> True | Some ids \<Rightarrow> fst e \<notin> set ids)"

definition admin_recipient :: "(addr \<Rightarrow> SessionCtx) \<Rightarrow> string list option \<Rightarrow> string \<times> addr \<Rightarrow> bool" where
  "admin_recipient st exclude e \<longleftrightarrow> recipient st exclude e \<and> IsAdmin (profile (st (snd e)))"

definition registered_as :: "string \<Rightarrow> bool \<Rightarrow> Session \<Rightarrow> 'v SessionManagerCtx
    \<Rightarrow> 'v SessionManagerCtx \<Rightarrow> bool" where
  \<comment> \<open>\<open>s\<close> is a session object allocated in the step from \<open>m\<close> to \<open>m'\<close>, entered under
      \<open>uid\<close>, with admin flag \<open>b\<close>\<close>
  "registered_as uid b s m m' \<longleftrightarrow>
     s = Dyn (Ptr (next_addr m)) \<and> next_addr m' = Suc (next_addr m) \<and>
     Get uid m' = (s, True) \<and>
     session_id (store m' (next_addr m)) = uid \<and>
     IsAdmin_session (store m' (next_addr m)) = b"

subsection \<open>Example states\<close>

definition example_config :: Config where
  "example_config = \<lparr>AdminPassword = ''admin'', Password = ''neko'', ImplicitHosting = False\<rparr>"

definition example_manager :: "string SessionManagerCtx" where
  \<comment> \<open>the manager as \<open>New\<close> leaves it: \<open>admin\<close> at address 0, \<open>user\<close> at address 1\<close>
  "example_manager = New False example_config"

definition set_connected :: "addr \<Rightarrow> bool \<Rightarrow> 'v SessionManagerCtx \<Rightarrow> 'v SessionManagerCtx" where
  \<comment> \<open>the transport layer changing a session's flag\<close>
  "set_connected a b m = m\<lparr>store := (store m)(a := (store m a)\<lparr>connected := b\<rparr>)\<rparr>"

definition example_listening :: "string SessionManagerCtx" where
  \<comment> \<open>one listener registered for each of four events\<close>
  "example_listening =
     OnHostCleared 4 (OnHost 3 (OnDisconnected 2 (OnConnected 1 example_manager)))"

definition example_first_connect :: "string SessionManagerCtx" where
  \<comment> \<open>the session \<open>user\<close> connects: the transport sets its flag and raises \<open>connected\<close>\<close>
  "example_first_connect =
     snd (Emit ''connected'' [Dyn (Ptr 1)] (set_connected 1 True example_listening))"

definition example_second_connect :: "string SessionManagerCtx" where
  \<comment> \<open>the session \<open>admin\<close> connects as well\<close>
  "example_second_connect =
     snd (Emit ''connected'' [Dyn (Ptr 0)] (set_connected 0 True example_first_connect))"

definition example_all_left :: "string SessionManagerCtx" where
  \<comment> \<open>both flags cleared by the transport, before it raises \<open>disconnected\<close>\<close>
  "example_all_left = set_connected 0 False (set_connected 1 False example_second_connect)"

definition request_query :: "string \<Rightarrow> Request" where
  \<comment> \<open>\<open>GET /?password=...\<close>, with a Bearer header and a cookie that must lose\<close>
  "request_query t = \<lparr>Query = [''password'' \<mapsto> [t]],
                       Header = [''Authorization'' \<mapsto> [''Bearer fromheader'']],
                       Cookies = [(''password'', ''fromcookie'')]\<rparr>"

definition request_header :: "string \<Rightarrow> Request" where
  \<comment> \<open>no query parameter; the given \<open>Authorization\<close> header; a cookie that must lose\<close>
  "request_header h = \<lparr>Query = Map.empty,
                        Header = [''Authorization'' \<mapsto> [h]],
                        Cookies = [(''password'', ''fromcookie'')]\<rparr>"

definition request_cookie :: "string \<Rightarrow> Request" where
  \<comment> \<open>an empty query parameter, a Basic header, and the cookie\<close>
  "request_cookie t = \<lparr>Query = [''password'' \<mapsto> [[]]],
                        Header = [''Authorization'' \<mapsto> [''Basic dXNlcjpwYXNz'']],
                        Cookies = [(''lang'', ''en''), (''password'', t)]\<rparr>"

definition request_bare :: Request where
  "request_bare = \<lparr>Query = Map.empty, Header = Map.empty, Cookies = []\<rparr>"

definition request_no_space :: Request where
  \<comment> \<open>the seventh character of the header is not a space; nothing else carries a token\<close>
  "request_no_space = \<lparr>Query = Map.empty,
                        Header = [''Authorization'' \<mapsto> [''BearerXneko'']],
                        Cookies = []\<rparr>"

definition example_open_manager :: "string SessionManagerCtx" where
  \<comment> \<open>a manager configured with an empty administrator password\<close>
  "example_open_manager =
     New False \<lparr>AdminPassword = [], Password = ''neko'', ImplicitHosting = False\<rparr>"

definition mint_ok :: "nat \<Rightarrow> error + string" where
  "mint_ok n = Inr ''c0ffee''"


definition example_abc_manager :: "string SessionManagerCtx" where
  "example_abc_manager =
     New False \<lparr>AdminPassword = ''admin'', Password = ''abc'', ImplicitHosting = False\<rparr>"

section \<open>Properties\<close>

subsection \<open>The registry invariant\<close>

lemma set_update_subset: "set (AList.update k v al) \<subseteq> insert (k, v) (set al)"
  by (induction al) auto

lemma set_delete_subset: "set (AList.delete k al) \<subseteq> set al"
  by (induction al) auto

lemma wf_Create:
  assumes "wf m"
  shows "wf (snd (Create i p m))"
proof -
  have d: "distinct (map fst (AList.update i (next_addr m) (members m)))"
    using assms by (simp add: wf_def distinct_update)
  have "snd e < Suc (next_addr m)" if "e \<in> set (AList.update i (next_addr m) (members m))" for e
  proof -
    from that set_update_subset [of i "next_addr m" "members m"]
    have "e = (i, next_addr m) \<or> e \<in> set (members m)" by auto
    then show ?thesis using assms by (auto simp: wf_def intro: less_SucI)
  qed
  with d show ?thesis
    by (simp add: wf_def Create_def Let_def)
qed

lemma wf_Delete: "wf m \<Longrightarrow> wf (snd (Delete d i m))"
  unfolding wf_def Delete_def Let_def Disconnect_def
  using set_delete_subset [of i "members m"]
  by (auto simp: distinct_delete split: option.splits)

lemma wf_New: "wf (New c cfg)"
proof -
  have "wf \<lparr>store = (\<lambda>_. zero_SessionCtx), next_addr = 0, host = NilSession,
            streaming = c, config = cfg, members = [], emmiter = [], trace = []\<rparr>"
    by (simp add: wf_def)
  then show ?thesis
    unfolding New_def Let_def by (intro wf_Create)
qed

lemma members_example_manager: "members example_manager = [(''admin'', 0), (''user'', Suc 0)]"
  by (simp add: example_manager_def New_def Create_def Let_def)

subsection \<open>Create, Get and Delete\<close>

lemma Create_twice_members:
  "map_of (members (snd (Create i p2 (snd (Create i p1 m))))) =
     (map_of (members m))(i \<mapsto> Suc (next_addr m))"
  by (simp add: Create_def Let_def update_conv')

lemma Create_unreachable:
  assumes "wf m"
  shows "fst (Get j (snd (Create i p2 (snd (Create i p1 m))))) \<noteq> fst (Create i p1 m)"
proof (cases "j = i")
  case True
  then show ?thesis
    by (simp add: Get_def Create_twice_members) (simp add: Create_def Let_def)
next
  case False
  show ?thesis
  proof (cases "map_of (members m) j")
    case None
    then show ?thesis using False
      by (simp add: Get_def Create_twice_members) (simp add: Create_def Let_def)
  next
    case (Some a)
    then have "(j, a) \<in> set (members m)" by (rule map_of_SomeD)
    then have "a < next_addr m" using assms by (force simp: wf_def)
    then show ?thesis using False Some
      by (simp add: Get_def Create_twice_members) (simp add: Create_def Let_def)
  qed
qed

text \<open>
  C7. \<open>Create\<close> allocates a new session object holding the id and the profile, enters it
  under the id and returns it; it has no error result. \<open>Get\<close> of that id right after
  returns that very object with \<open>found = true\<close>. After a second \<open>Create\<close> with the same
  id, \<open>Get\<close> returns the second object, which is another object than the first, and
  (in a manager whose map holds allocated pointers only) no id leads to the first any more.
\<close>

theorem Create_then_Get:
  "fst (Create i p m) = Dyn (Ptr (next_addr m)) \<and>
   store (snd (Create i p m)) (next_addr m) = \<lparr>session_id = i, profile = p, connected = False\<rparr> \<and>
   Get i (snd (Create i p m)) = (fst (Create i p m), True) \<and>
   Get i (snd (Create i p2 (snd (Create i p m)))) = (fst (Create i p2 (snd (Create i p m))), True) \<and>
   fst (Create i p2 (snd (Create i p m))) \<noteq> fst (Create i p m) \<and>
   (wf m \<longrightarrow> (\<forall>j. fst (Get j (snd (Create i p2 (snd (Create i p m))))) \<noteq> fst (Create i p m)))"
proof -
  have get: "Get i (snd (Create i q n)) = (fst (Create i q n), True)"
    for q and n :: "'a SessionManagerCtx"
    by (simp add: Create_def Get_def Let_def update_conv)
  have "fst (Create i p m) = Dyn (Ptr (next_addr m))"
    by (simp add: Create_def Let_def)
  moreover have "store (snd (Create i p m)) (next_addr m)
      = \<lparr>session_id = i, profile = p, connected = False\<rparr>"
    by (simp add: Create_def Let_def)
  moreover have "fst (Create i p2 (snd (Create i p m))) \<noteq> fst (Create i p m)"
    by (simp add: Create_def Let_def)
  ultimately show ?thesis
    using get Create_unreachable [of m _ i p2 p] by blast
qed

theorem Create_then_Get_witness:
  "wf example_manager \<and>
   (\<forall>j. fst (Get j (snd (Create ''admin'' \<lparr>Secret = ''s2'', Name = ''Second'', IsAdmin = False\<rparr>
                      (snd (Create ''admin'' \<lparr>Secret = ''s1'', Name = ''First'', IsAdmin = True\<rparr>
                         example_manager)))))
        \<noteq> Dyn (Ptr 2))"
proof -
  have w: "wf example_manager"
    unfolding example_manager_def by (rule wf_New)
  have n: "next_addr example_manager = 2"
    by (simp add: example_manager_def New_def Create_def Let_def)
  note t = Create_then_Get [of "''admin''" "\<lparr>Secret = ''s1'', Name = ''First'', IsAdmin = True\<rparr>"
      example_manager "\<lparr>Secret = ''s2'', Name = ''Second'', IsAdmin = False\<rparr>"]
  from t n have a: "fst (Create ''admin'' \<lparr>Secret = ''s1'', Name = ''First'', IsAdmin = True\<rparr>
      example_manager) = Dyn (Ptr 2)"
    by simp
  from t w have "\<forall>j. fst (Get j (snd (Create ''admin'' \<lparr>Secret = ''s2'', Name = ''Second'', IsAdmin = False\<rparr>
                      (snd (Create ''admin'' \<lparr>Secret = ''s1'', Name = ''First'', IsAdmin = True\<rparr>
                         example_manager)))))
        \<noteq> fst (Create ''admin'' \<lparr>Secret = ''s1'', Name = ''First'', IsAdmin = True\<rparr> example_manager)"
    by blast
  with w show ?thesis unfolding a by blast
qed

text \<open>
  C8. \<open>Delete\<close> of an id the map has no entry for returns the error "Member not found."
  and the manager exactly as it was.
\<close>

theorem Delete_unknown_id:
  "map_of (members m) i = None \<Longrightarrow>
   Delete disc_res i m = (Some (Errorf ''Member not found.''), m)"
  by (simp add: Delete_def)

theorem Delete_unknown_id_witness:
  "map_of (members example_manager) ''ghost'' = None \<and>
   Delete (\<lambda>_ _ _. None) ''ghost'' example_manager
     = (Some (Errorf ''Member not found.''), example_manager)"
proof -
  have h: "map_of (members example_manager) ''ghost'' = None"
    by (simp add: members_example_manager)
  from h Delete_unknown_id [OF h] show ?thesis by blast
qed

text \<open>
  C3. When the map has an entry for the id, \<open>Delete\<close> removes the entry first and only
  then, if the session is connected, calls its \<open>Disconnect\<close> with the reason
  "member deleted": the call is made in the state \<open>m1\<close> in which the id is already
  gone, it is the one call recorded, and its result is what \<open>Delete\<close> returns. A session
  that is not connected is removed without any call and \<open>Delete\<close> returns no error.
  Either way the id is absent from \<open>Get\<close> afterwards.
\<close>

theorem Delete_found:
  "map_of (members m) i = Some a \<Longrightarrow>
   (let m1 = m\<lparr>members := AList.delete i (members m)\<rparr>;
        r = Delete disc_res i m
    in map_of (members m1) i = None \<and>
       fst r = (if connected (store m a) then disc_res m1 a ''member deleted'' else None) \<and>
       snd r = m1\<lparr>trace := trace m @
                 (if connected (store m a) then [DisconnectCall a ''member deleted''] else [])\<rparr> \<and>
       Get i (snd r) = (Dyn Null, False))"
  by (simp add: Delete_def Let_def Disconnect_def IsConnected_def Get_def delete_conv)

theorem Delete_found_witness:
  "map_of (members (set_connected 0 True example_manager)) ''admin'' = Some 0 \<and>
   fst (Delete (\<lambda>_ _ _. Some (Errorf ''socket closed'')) ''admin''
          (set_connected 0 True example_manager)) = Some (Errorf ''socket closed'') \<and>
   Get ''admin'' (snd (Delete (\<lambda>_ _ _. Some (Errorf ''socket closed'')) ''admin''
          (set_connected 0 True example_manager))) = (Dyn Null, False)"
proof -
  have h: "map_of (members (set_connected 0 True example_manager)) ''admin'' = Some 0"
    by (simp add: set_connected_def members_example_manager)
  have c: "connected (store (set_connected 0 True example_manager) 0)"
    by (simp add: set_connected_def)
  note t = Delete_found [OF h, of "\<lambda>_ _ _. Some (Errorf ''socket closed'')", unfolded Let_def]
  from t c have "fst (Delete (\<lambda>_ _ _. Some (Errorf ''socket closed'')) ''admin''
          (set_connected 0 True example_manager)) = Some (Errorf ''socket closed'')"
    by simp
  moreover from t have "Get ''admin'' (snd (Delete (\<lambda>_ _ _. Some (Errorf ''socket closed'')) ''admin''
          (set_connected 0 True example_manager))) = (Dyn Null, False)"
    by blast
  ultimately show ?thesis using h by blast
qed


lemma example_listening_simps:
  "emmiter example_listening = [(''connected'', Wrap_Connected 1), (''disconnected'', Wrap_Disconnected 2),
      (''host'', Wrap_Host 3), (''host_cleared'', Wrap_HostCleared 4)]"
  "host example_listening = NilSession"
  "streaming example_listening = False"
  "trace example_listening = []"
  "members example_listening = [(''admin'', 0), (''user'', Suc 0)]"
  by (simp_all add: example_listening_def OnHostCleared_def OnHost_def OnDisconnected_def
      OnConnected_def On_def example_manager_def New_def Create_def Let_def)

subsection \<open>Events and the host\<close>

lemma emitted_of_append: "emitted_of (xs @ ys) = emitted_of xs @ emitted_of ys"
  by (induction xs rule: emitted_of.induct) simp_all

lemma sends_of_append: "sends_of (xs @ ys) = sends_of xs @ sends_of ys"
  by (induction xs rule: sends_of.induct) simp_all

lemma call_listener_keeps:
  "host (snd (call_listener l payload m)) = host m \<and>
   emitted_of (trace (snd (call_listener l payload m))) = emitted_of (trace m)"
  by (simp add: call_listener_def emitted_of_append split: list.splits Session.splits)

lemma call_wrapper_keeps:
  "host (snd (call_wrapper w payload m)) = host m \<and>
   emitted_of (trace (snd (call_wrapper w payload m))) = emitted_of (trace m)"
  by (cases w)
     (simp_all add: call_listener_keeps Let_def StartStream_def StopStream_def emitted_of_append)

lemma call_listeners_keeps:
  "host (snd (call_listeners ws payload m)) = host m \<and>
   emitted_of (trace (snd (call_listeners ws payload m))) = emitted_of (trace m)"
proof (induction ws arbitrary: m)
  case Nil
  show ?case by simp
next
  case (Cons w ws)
  obtain r m1 where c: "call_wrapper w payload m = (r, m1)" by (cases "call_wrapper w payload m")
  with call_wrapper_keeps [of w payload m]
  have k: "host m1 = host m" "emitted_of (trace m1) = emitted_of (trace m)" by simp_all
  show ?case
  proof (cases r)
    case None
    with c k Cons.IH [of m1] show ?thesis by simp
  next
    case (Some p)
    with c k show ?thesis by simp
  qed
qed

lemma Emit_keeps:
  "host (snd (Emit evt payload m)) = host m \<and>
   emitted_of (trace (snd (Emit evt payload m))) = emitted_of (trace m) @ [(evt, payload)]"
  by (simp add: Emit_def call_listeners_keeps emitted_of_append)

text \<open>
  C5. In every state \<open>HasHost\<close> is true exactly when \<open>GetHost\<close> is not nil. \<open>SetHost s\<close>
  makes \<open>s\<close> the host whatever the host was and whatever \<open>s\<close> is, and raises one
  event, \<open>host\<close> with payload \<open>s\<close>. \<open>ClearHost\<close> makes the host nil and raises one event,
  \<open>host_cleared\<close> with the host it found as payload (nil if there was none). Both hold
  also when a listener panics: the host is assigned before the event is raised.
\<close>

theorem host_arbiter:
  "HasHost m = (GetHost m \<noteq> NilSession) \<and>
   GetHost (snd (SetHost s m)) = s \<and>
   emitted_of (trace (snd (SetHost s m))) = emitted_of (trace m) @ [(''host'', [s])] \<and>
   GetHost (snd (ClearHost m)) = NilSession \<and>
   HasHost (snd (ClearHost m)) = False \<and>
   emitted_of (trace (snd (ClearHost m))) = emitted_of (trace m) @ [(''host_cleared'', [GetHost m])]"
  by (simp add: HasHost_def GetHost_def SetHost_def ClearHost_def Let_def Emit_keeps)

subsection \<open>The nil payload\<close>

lemma call_wrapper_nil:
  "fst (call_wrapper w [NilSession] m) = Some InterfaceConversion"
  by (cases w) (simp_all add: call_listener_def Let_def)

lemma Emit_nil_panics:
  assumes "listeners_of evt (emmiter m) \<noteq> []"
  shows "fst (Emit evt [NilSession] m) = Some InterfaceConversion"
proof -
  from assms obtain w ws where l: "listeners_of evt (emmiter m) = w # ws"
    by (cases "listeners_of evt (emmiter m)") auto
  let ?m = "m\<lparr>trace := trace m @ [Emitted evt [NilSession]]\<rparr>"
  obtain r m1 where c: "call_wrapper w [NilSession] ?m = (r, m1)"
    by (cases "call_wrapper w [NilSession] ?m")
  with call_wrapper_nil [of w ?m] have "r = Some InterfaceConversion" by simp
  with c l show ?thesis by (simp add: Emit_def)
qed

lemma listeners_of_member:
  "(evt, w) \<in> set e \<Longrightarrow> listeners_of evt e \<noteq> []"
  by (induction e) (auto simp: listeners_of_def)

text \<open>
  C10. The wrappers of \<open>OnHost\<close> and \<open>OnHostCleared\<close> assert the payload to be a
  \<open>*SessionCtx\<close> without the two-result form. Once a listener is registered through
  \<open>OnHostCleared\<close>, \<open>ClearHost\<close> in a state without host panics with a failed interface
  conversion, and once one is registered through \<open>OnHost\<close>, so does \<open>SetHost\<close> of the
  nil session.
\<close>

theorem host_listener_panics:
  "(host m = NilSession \<and> (''host_cleared'', Wrap_HostCleared l) \<in> set (emmiter m)
      \<longrightarrow> fst (ClearHost m) = Some InterfaceConversion) \<and>
   ((''host'', Wrap_Host l') \<in> set (emmiter m')
      \<longrightarrow> fst (SetHost NilSession m') = Some InterfaceConversion) \<and>
   (''host_cleared'', Wrap_HostCleared l) \<in> set (emmiter (OnHostCleared l m)) \<and>
   (''host'', Wrap_Host l') \<in> set (emmiter (OnHost l' m'))"
  by (auto simp: ClearHost_def SetHost_def Let_def OnHostCleared_def OnHost_def On_def
      intro!: Emit_nil_panics listeners_of_member)

theorem host_listener_panics_witness:
  "host example_listening = NilSession \<and>
   (''host_cleared'', Wrap_HostCleared 4) \<in> set (emmiter example_listening) \<and>
   fst (ClearHost example_listening) = Some InterfaceConversion \<and>
   (''host'', Wrap_Host 3) \<in> set (emmiter example_listening) \<and>
   fst (SetHost NilSession example_listening) = Some InterfaceConversion"
proof -
  have h: "host example_listening = NilSession"
    and c: "(''host_cleared'', Wrap_HostCleared 4) \<in> set (emmiter example_listening)"
    and s: "(''host'', Wrap_Host 3) \<in> set (emmiter example_listening)"
    by (simp_all add: example_listening_simps)
  from host_listener_panics [of example_listening 4 3 example_listening] h c s
  show ?thesis by blast
qed

subsection \<open>Streaming follows the connected members\<close>

lemma connected_while_streaming:
  "streaming m \<Longrightarrow>
   call_listeners (map Wrap_Connected ls) [Dyn p] m =
     (None, m\<lparr>trace := trace m @ map (\<lambda>l. Listener l (Dyn p)) ls\<rparr>)"
  by (induction ls arbitrary: m) (simp_all add: Streaming_def Let_def call_listener_def)

lemma disconnected_while_stopped:
  "\<not> streaming m \<Longrightarrow>
   call_listeners (map Wrap_Disconnected ls) [Dyn p] m =
     (None, m\<lparr>trace := trace m @ map (\<lambda>l. Listener l (Dyn p)) ls\<rparr>)"
  by (induction ls arbitrary: m) (simp_all add: Streaming_def Let_def call_listener_def)

text \<open>
  C6. With listeners registered through \<open>OnConnected\<close> and \<open>OnDisconnected\<close>, and a
  session as payload: a \<open>connected\<close> event raised while the capture manager is not
  streaming calls \<open>StartStream\<close> once, before the first listener; a \<open>disconnected\<close>
  event raised while it is streaming and no member is connected calls \<open>StopStream\<close>
  once, before the first listener; a \<open>connected\<close> event raised while it is streaming
  calls the listeners only.
\<close>

theorem streaming_coupling:
  "(\<not> streaming mA \<and> listeners_of ''connected'' (emmiter mA) = map Wrap_Connected (a # as) \<longrightarrow>
      Emit ''connected'' [Dyn p] mA =
        (None, mA\<lparr>streaming := True,
                  trace := trace mA @ [Emitted ''connected'' [Dyn p], StartStreamCall]
                             @ map (\<lambda>l. Listener l (Dyn p)) (a # as)\<rparr>)) \<and>
   (streaming mB \<and> \<not> HasConnectedMembers mB \<and>
    listeners_of ''disconnected'' (emmiter mB) = map Wrap_Disconnected (b # bs) \<longrightarrow>
      Emit ''disconnected'' [Dyn q] mB =
        (None, mB\<lparr>streaming := False,
                  trace := trace mB @ [Emitted ''disconnected'' [Dyn q], StopStreamCall]
                             @ map (\<lambda>l. Listener l (Dyn q)) (b # bs)\<rparr>)) \<and>
   (streaming mC \<and> listeners_of ''connected'' (emmiter mC) = map Wrap_Connected cs \<longrightarrow>
      Emit ''connected'' [Dyn p'] mC =
        (None, mC\<lparr>trace := trace mC @ [Emitted ''connected'' [Dyn p']]
                             @ map (\<lambda>l. Listener l (Dyn p')) cs\<rparr>))"
  by (simp add: Emit_def Streaming_def StartStream_def StopStream_def Let_def call_listener_def
      HasConnectedMembers_def connected_while_streaming disconnected_while_stopped)


theorem streaming_coupling_witness:
  "\<not> streaming (set_connected 1 True example_listening) \<and>
   trace example_first_connect =
     [Emitted ''connected'' [Dyn (Ptr 1)], StartStreamCall, Listener 1 (Dyn (Ptr 1))] \<and>
   streaming (set_connected 0 True example_first_connect) \<and>
   trace example_second_connect =
     trace example_first_connect @ [Emitted ''connected'' [Dyn (Ptr 0)], Listener 1 (Dyn (Ptr 0))] \<and>
   streaming example_all_left \<and> \<not> HasConnectedMembers example_all_left \<and>
   trace (snd (Emit ''disconnected'' [Dyn (Ptr 0)] example_all_left)) =
     trace example_second_connect @
       [Emitted ''disconnected'' [Dyn (Ptr 0)], StopStreamCall, Listener 2 (Dyn (Ptr 0))]"
proof -
  let ?mA = "set_connected 1 True example_listening"
  let ?mC = "set_connected 0 True example_first_connect"
  note t = streaming_coupling [of ?mA 1 "[]" "Ptr 1" example_all_left 2 "[]" "Ptr 0" ?mC "[1]" "Ptr 0"]
  have a1: "\<not> streaming ?mA"
    and a2: "listeners_of ''connected'' (emmiter ?mA) = map Wrap_Connected [1]"
    by (simp_all add: set_connected_def example_listening_simps listeners_of_def)
  from t a1 a2 have fc: "example_first_connect =
      ?mA\<lparr>streaming := True,
           trace := trace ?mA @ [Emitted ''connected'' [Dyn (Ptr 1)], StartStreamCall]
                      @ map (\<lambda>l. Listener l (Dyn (Ptr 1))) [1]\<rparr>"
    unfolding example_first_connect_def by simp
  have c1: "streaming ?mC"
    and c2: "listeners_of ''connected'' (emmiter ?mC) = map Wrap_Connected [1]"
    by (simp_all add: fc set_connected_def example_listening_simps listeners_of_def)
  from t c1 c2 have sc: "example_second_connect =
      ?mC\<lparr>trace := trace ?mC @ [Emitted ''connected'' [Dyn (Ptr 0)]]
                      @ map (\<lambda>l. Listener l (Dyn (Ptr 0))) [1]\<rparr>"
    unfolding example_second_connect_def by simp
  have b1: "streaming example_all_left"
    and b2: "\<not> HasConnectedMembers example_all_left"
    and b3: "listeners_of ''disconnected'' (emmiter example_all_left) = map Wrap_Disconnected [2]"
    by (simp_all add: example_all_left_def sc fc set_connected_def example_listening_simps
        listeners_of_def HasConnectedMembers_def IsConnected_def)
  from t b1 b2 b3 have al: "Emit ''disconnected'' [Dyn (Ptr 0)] example_all_left =
      (None, example_all_left\<lparr>streaming := False,
           trace := trace example_all_left @ [Emitted ''disconnected'' [Dyn (Ptr 0)], StopStreamCall]
                      @ map (\<lambda>l. Listener l (Dyn (Ptr 0))) [2]\<rparr>)"
    by simp
  have t1: "trace example_first_connect =
     [Emitted ''connected'' [Dyn (Ptr 1)], StartStreamCall, Listener 1 (Dyn (Ptr 1))]"
    by (simp add: fc set_connected_def example_listening_simps)
  have t2: "trace example_second_connect =
     trace example_first_connect @ [Emitted ''connected'' [Dyn (Ptr 0)], Listener 1 (Dyn (Ptr 0))]"
    by (simp add: sc set_connected_def)
  have t3: "trace (snd (Emit ''disconnected'' [Dyn (Ptr 0)] example_all_left)) =
     trace example_second_connect @
       [Emitted ''disconnected'' [Dyn (Ptr 0)], StopStreamCall, Listener 2 (Dyn (Ptr 0))]"
    by (simp add: al) (simp add: example_all_left_def set_connected_def)
  from a1 t1 c1 t2 b1 b2 t3 show ?thesis by blast
qed


subsection \<open>Broadcast\<close>

lemma Broadcast_range_sends:
  "\<exists>tr. Broadcast_range snd_res v ex xs m = m\<lparr>trace := trace m @ tr\<rparr> \<and>
        sends_of tr = map (\<lambda>e. (snd e, v)) (filter (recipient (store m) ex) xs)"
proof (induction xs arbitrary: m)
  case Nil
  show ?case by (intro exI [of _ "[]"]) simp
next
  case (Cons e xs)
  obtain i a where e: "e = (i, a)" by (cases e)
  show ?case
  proof (cases "recipient (store m) ex e")
    case False
    with Cons.IH [of m] e show ?thesis
      by (auto simp: recipient_def IsConnected_def ArrayIn_def split: option.splits)
  next
    case True
    obtain r where r: "snd_res m a v = r" by simp
    let ?w = "case r of None \<Rightarrow> [] | Some err \<Rightarrow> [Warn err ''broadcasting event has failed'']"
    let ?m2 = "m\<lparr>trace := trace m @ SendCall a v # ?w\<rparr>"
    have step: "Broadcast_range snd_res v ex (e # xs) m = Broadcast_range snd_res v ex xs ?m2"
      using True e r
      by (auto simp: recipient_def IsConnected_def ArrayIn_def Send_def
          split: option.splits)
    from Cons.IH [of ?m2] obtain tr where
      tr: "Broadcast_range snd_res v ex xs ?m2 = ?m2\<lparr>trace := trace ?m2 @ tr\<rparr>"
        "sends_of tr = map (\<lambda>e. (snd e, v)) (filter (recipient (store ?m2) ex) xs)"
      by blast
    have "sends_of ?w = []" by (cases r) simp_all
    then have "sends_of (SendCall a v # ?w @ tr)
        = map (\<lambda>e. (snd e, v)) (filter (recipient (store m) ex) (e # xs))"
      using True e tr(2) by (simp add: sends_of_append)
    moreover have "Broadcast_range snd_res v ex (e # xs) m
        = m\<lparr>trace := trace m @ (SendCall a v # ?w @ tr)\<rparr>"
      using step tr(1) by simp
    ultimately show ?thesis by blast
  qed
qed

lemma AdminBroadcast_range_sends:
  "\<exists>tr. AdminBroadcast_range snd_res v ex xs m = m\<lparr>trace := trace m @ tr\<rparr> \<and>
        sends_of tr = map (\<lambda>e. (snd e, v)) (filter (admin_recipient (store m) ex) xs)"
proof (induction xs arbitrary: m)
  case Nil
  show ?case by (intro exI [of _ "[]"]) simp
next
  case (Cons e xs)
  obtain i a where e: "e = (i, a)" by (cases e)
  show ?case
  proof (cases "admin_recipient (store m) ex e")
    case False
    with Cons.IH [of m] e show ?thesis
      by (auto simp: admin_recipient_def recipient_def IsConnected_def IsAdmin_session_def
          ArrayIn_def split: option.splits)
  next
    case True
    obtain r where r: "snd_res m a v = r" by simp
    let ?w = "case r of None \<Rightarrow> [] | Some err \<Rightarrow> [Warn err ''broadcasting admin event has failed'']"
    let ?m2 = "m\<lparr>trace := trace m @ SendCall a v # ?w\<rparr>"
    have step: "AdminBroadcast_range snd_res v ex (e # xs) m = AdminBroadcast_range snd_res v ex xs ?m2"
      using True e r
      by (auto simp: admin_recipient_def recipient_def IsConnected_def IsAdmin_session_def
          ArrayIn_def Send_def split: option.splits)
    from Cons.IH [of ?m2] obtain tr where
      tr: "AdminBroadcast_range snd_res v ex xs ?m2 = ?m2\<lparr>trace := trace ?m2 @ tr\<rparr>"
        "sends_of tr = map (\<lambda>e. (snd e, v)) (filter (admin_recipient (store ?m2) ex) xs)"
      by blast
    have "sends_of ?w = []" by (cases r) simp_all
    then have "sends_of (SendCall a v # ?w @ tr)
        = map (\<lambda>e. (snd e, v)) (filter (admin_recipient (store m) ex) (e # xs))"
      using True e tr(2) by (simp add: sends_of_append)
    moreover have "AdminBroadcast_range snd_res v ex (e # xs) m
        = m\<lparr>trace := trace m @ (SendCall a v # ?w @ tr)\<rparr>"
      using step tr(1) by simp
    ultimately show ?thesis by blast
  qed
qed

text \<open>
  C4. \<open>Broadcast\<close> changes nothing but the trace, and the \<open>Send\<close> calls it adds are one
  for each entry of the map whose session is connected and whose id is not in the
  exclusion collection, admin or not, with the payload it was given; \<open>AdminBroadcast\<close>
  adds one for each of those whose session is an admin as well. Without an exclusion
  collection every connected session (every connected admin) is a recipient. This holds
  whatever the \<open>Send\<close> calls return, so a failed delivery stops none of the later ones;
  neither function has a result in which an error could be returned.
\<close>

theorem broadcast_recipients:
  "(\<exists>tr. Broadcast snd_res v exclude m = m\<lparr>trace := trace m @ tr\<rparr> \<and>
         sends_of tr = map (\<lambda>e. (snd e, v)) (filter (recipient (store m) exclude) (members m))) \<and>
   (\<exists>tr. AdminBroadcast snd_res v exclude m = m\<lparr>trace := trace m @ tr\<rparr> \<and>
         sends_of tr = map (\<lambda>e. (snd e, v)) (filter (admin_recipient (store m) exclude) (members m))) \<and>
   recipient st None e = connected (st (snd e)) \<and>
   recipient st (Some ids) e = (connected (st (snd e)) \<and> fst e \<notin> set ids) \<and>
   admin_recipient st exclude e = (recipient st exclude e \<and> IsAdmin (profile (st (snd e))))"
  unfolding Broadcast_def AdminBroadcast_def
  using Broadcast_range_sends [of snd_res v exclude "members m" m]
    AdminBroadcast_range_sends [of snd_res v exclude "members m" m]
  by (simp add: recipient_def admin_recipient_def)

text \<open>
  The scenario of the spec, with every delivery failing: \<open>admin\<close> (address 0) and
  \<open>user\<close> (address 1) are connected.
\<close>

lemma broadcast_example:
  "trace (AdminBroadcast (\<lambda>_ _ _. Some (Errorf ''closed'')) ''msg'' None
            (set_connected 1 True (set_connected 0 True example_manager)))
     = [SendCall 0 ''msg'', Warn (Errorf ''closed'') ''broadcasting admin event has failed'']"
  "trace (Broadcast (\<lambda>_ _ _. Some (Errorf ''closed'')) ''msg'' None
            (set_connected 1 True (set_connected 0 True example_manager)))
     = [SendCall 0 ''msg'', Warn (Errorf ''closed'') ''broadcasting event has failed'',
        SendCall 1 ''msg'', Warn (Errorf ''closed'') ''broadcasting event has failed'']"
  "trace (Broadcast (\<lambda>_ _ _. None) ''msg'' (Some [''admin''])
            (set_connected 1 True (set_connected 0 True example_manager)))
     = [SendCall 1 ''msg'']"
  by (simp_all add: AdminBroadcast_def Broadcast_def set_connected_def members_example_manager
      IsConnected_def IsAdmin_session_def ArrayIn_def Send_def
      example_manager_def New_def Create_def Let_def)

subsection \<open>The Bearer scheme\<close>

lemma of_char_upper_byte:
  "(of_char (upper_byte c) :: nat) =
     (if 97 \<le> (of_char c :: nat) \<and> (of_char c :: nat) \<le> 122 then of_char c - 32 else of_char c)"
proof -
  have "(of_char c :: nat) - 32 < 256"
    using nat_of_char_less_256 [of c] by arith
  then show ?thesis
    by (simp add: upper_byte_def Let_def)
qed

lemma char_eq_of_nat: "(of_char c :: nat) = of_char d \<Longrightarrow> c = d"
  by (metis char_of_char)

lemma upper_byte_eq_letter:
  assumes u: "65 \<le> (of_char u :: nat)" "(of_char u :: nat) \<le> 90"
    and l: "(of_char l :: nat) = of_char u + 32"
  shows "upper_byte c = u \<longleftrightarrow> c = u \<or> c = l"
proof
  assume "upper_byte c = u"
  then have "(of_char (upper_byte c) :: nat) = of_char u" by simp
  then have "(of_char c :: nat) = of_char u \<or> (of_char c :: nat) = of_char u + 32"
    unfolding of_char_upper_byte by (simp only: split: if_splits) arith+
  then show "c = u \<or> c = l"
    using l by (auto intro: char_eq_of_nat)
next
  assume "c = u \<or> c = l"
  then have "(of_char (upper_byte c) :: nat) = of_char u"
    unfolding of_char_upper_byte using u l by auto
  then show "upper_byte c = u" by (rule char_eq_of_nat)
qed

lemma upper_byte_letters:
  "upper_byte c = CHR ''B'' \<longleftrightarrow> c = CHR ''B'' \<or> c = CHR ''b''"
  "upper_byte c = CHR ''E'' \<longleftrightarrow> c = CHR ''E'' \<or> c = CHR ''e''"
  "upper_byte c = CHR ''A'' \<longleftrightarrow> c = CHR ''A'' \<or> c = CHR ''a''"
  "upper_byte c = CHR ''R'' \<longleftrightarrow> c = CHR ''R'' \<or> c = CHR ''r''"
  by (rule upper_byte_eq_letter; simp)+

lemma length_6_cases:
  "length s = 6 \<Longrightarrow> \<exists>c0 c1 c2 c3 c4 c5. s = [c0, c1, c2, c3, c4, c5]"
  by (simp add: numeral_eq_Suc length_Suc_conv) blast

lemma bearer_scheme_length: "bearer_scheme s \<Longrightarrow> length s = 6"
  by (erule bearer_scheme.elims) simp

lemma ToUpper_BEARER: "ToUpper s = ''BEARER'' \<longleftrightarrow> bearer_scheme s"
proof (cases "length s = 6")
  case True
  then obtain c0 c1 c2 c3 c4 c5 where "s = [c0, c1, c2, c3, c4, c5]"
    using length_6_cases by blast
  then show ?thesis
    by (simp add: ToUpper_def upper_byte_letters)
next
  case False
  then have "\<not> bearer_scheme s" using bearer_scheme_length by blast
  moreover have "ToUpper s \<noteq> ''BEARER''"
  proof
    assume "ToUpper s = ''BEARER''"
    then have "length (ToUpper s) = 6" by simp
    with False show False by (simp add: ToUpper_def)
  qed
  ultimately show ?thesis by simp
qed


subsection \<open>Token extraction\<close>

lemma getToken_cases:
  "getToken r =
     (if password_param r \<noteq> [] then password_param r
      else if code_Bearer_form (authorization r) then drop 7 (authorization r)
      else case password_cookie r of None \<Rightarrow> [] | Some v \<Rightarrow> v)"
  by (simp add: getToken_def Let_def ToUpper_BEARER password_param_def authorization_def
      password_cookie_def code_Bearer_form_def split: sum.splits)

lemma Authenticate_no_token:
  "getToken r = [] \<Longrightarrow> Authenticate NewUID r m = (Inl (Errorf ''no password provided''), m)"
  by (simp add: Authenticate_def)

lemma manager_New_registered:
  "registered_as uid b (fst (manager_New uid b m)) m (snd (manager_New uid b m))"
  by (simp add: registered_as_def manager_New_def Create_def Let_def Get_def update_conv
      IsAdmin_session_def)

lemma Authenticate_success:
  assumes "getToken r \<noteq> []"
    and "getToken r = AdminPassword (config m) \<or> getToken r = Password (config m)"
    and "NewUID 32 = Inr uid"
  shows "\<exists>s m'. Authenticate NewUID r m = (Inr s, m') \<and>
           registered_as uid (getToken r = AdminPassword (config m)) s m m'"
proof -
  let ?b = "getToken r = AdminPassword (config m)"
  have "Authenticate NewUID r m = (Inr (fst (manager_New uid ?b m)), snd (manager_New uid ?b m))"
    using assms by (auto simp: Authenticate_def Let_def split: prod.splits)
  with manager_New_registered [of uid ?b m] show ?thesis by blast
qed

lemma example_requests:
  "password_param (request_query t) = t"
  "password_param (request_header h) = []"
  "authorization (request_header h) = h"
  "password_param (request_cookie t) = []"
  "authorization (request_cookie t) = ''Basic dXNlcjpwYXNz''"
  "password_cookie (request_cookie t) = Some t"
  "password_param request_bare = []"
  "authorization request_bare = []"
  "password_cookie request_bare = None"
  "password_param request_no_space = []"
  "authorization request_no_space = ''BearerXneko''"
  "password_cookie request_no_space = None"
  by (simp_all add: password_param_def authorization_def password_cookie_def Values_Get_def
      Cookie_def token_name_def request_query_def request_header_def request_cookie_def
      request_bare_def request_no_space_def)

lemma example_configs:
  "config example_manager = example_config"
  "config example_abc_manager
     = \<lparr>AdminPassword = ''admin'', Password = ''abc'', ImplicitHosting = False\<rparr>"
  "config example_open_manager
     = \<lparr>AdminPassword = [], Password = ''neko'', ImplicitHosting = False\<rparr>"
  "next_addr example_manager = 2"
  by (simp_all add: example_manager_def example_abc_manager_def example_open_manager_def
      New_def Create_def Let_def)

lemma spec_form_accepted: "spec_Bearer_form h \<Longrightarrow> length h > 7 \<Longrightarrow> code_Bearer_form h"
  by (simp add: spec_Bearer_form_def code_Bearer_form_def)

text \<open>
  C2, as the code has it. The token is the \<open>password\<close> query parameter if that is not
  empty; else, if the \<open>Authorization\<close> header is longer than seven characters and its
  first six are the letters of \<open>Bearer\<close> in any case, everything after the seventh
  character, whatever the seventh character is; else the value of the first cookie named
  \<open>password\<close>. With none of the three \<open>Authenticate\<close> fails with "no password provided"
  and leaves the manager as it is. The header \<open>Bearer abc\<close> with user password \<open>abc\<close>
  (and another administrator password, no query parameter, a minter that succeeds)
  yields a newly registered session that is not an admin. Every header of the form the
  spec describes, with a token of at least one character, is accepted.
\<close>

theorem getToken_precedence:
  "(password_param r1 \<noteq> [] \<longrightarrow> getToken r1 = password_param r1) \<and>
   (password_param r2 = [] \<and> code_Bearer_form (authorization r2)
      \<longrightarrow> getToken r2 = drop 7 (authorization r2)) \<and>
   (password_param r3 = [] \<and> \<not> code_Bearer_form (authorization r3) \<and> password_cookie r3 = Some v
      \<longrightarrow> getToken r3 = v) \<and>
   (password_param r4 = [] \<and> \<not> code_Bearer_form (authorization r4) \<and> password_cookie r4 = None
      \<longrightarrow> Authenticate N4 r4 m4 = (Inl (Errorf ''no password provided''), m4)) \<and>
   (password_param r5 = [] \<and> authorization r5 = ''Bearer abc'' \<and>
    Password (config m5) = ''abc'' \<and> AdminPassword (config m5) \<noteq> ''abc'' \<and> N5 32 = Inr uid
      \<longrightarrow> (\<exists>s m'. Authenticate N5 r5 m5 = (Inr s, m') \<and> registered_as uid False s m5 m')) \<and>
   (spec_Bearer_form h \<and> length h > 7 \<longrightarrow> code_Bearer_form h)"
proof -
  have "\<exists>s m'. Authenticate N5 r5 m5 = (Inr s, m') \<and> registered_as uid False s m5 m'"
    if "password_param r5 = []" "authorization r5 = ''Bearer abc''"
      "Password (config m5) = ''abc''" "AdminPassword (config m5) \<noteq> ''abc''" "N5 32 = Inr uid"
  proof -
    have t: "getToken r5 = ''abc''"
      using that by (simp add: getToken_cases code_Bearer_form_def)
    with Authenticate_success [of r5 m5 N5 uid] that show ?thesis by simp
  qed
  then show ?thesis
    by (simp add: getToken_cases Authenticate_no_token spec_form_accepted)
qed


theorem getToken_precedence_witness:
  "password_param (request_query ''neko'') \<noteq> [] \<and>
   getToken (request_query ''neko'') = ''neko'' \<and>
   code_Bearer_form (authorization (request_header ''bEaReR neko'')) \<and>
   getToken (request_header ''bEaReR neko'') = ''neko'' \<and>
   \<not> code_Bearer_form (authorization (request_cookie ''neko'')) \<and>
   getToken (request_cookie ''neko'') = ''neko'' \<and>
   password_cookie request_bare = None \<and>
   Authenticate mint_ok request_bare example_manager
     = (Inl (Errorf ''no password provided''), example_manager) \<and>
   (\<exists>s m'. Authenticate mint_ok (request_header ''Bearer abc'') example_abc_manager = (Inr s, m') \<and>
           registered_as ''c0ffee'' False s example_abc_manager m') \<and>
   spec_Bearer_form ''Bearer abc'' \<and> code_Bearer_form ''Bearer abc''"
proof -
  note t = getToken_precedence [of "request_query ''neko''" "request_header ''bEaReR neko''"
      "request_cookie ''neko''" "''neko''" request_bare mint_ok example_manager
      "request_header ''Bearer abc''" example_abc_manager mint_ok "''c0ffee''" "''Bearer abc''"]
  have h1: "password_param (request_query ''neko'') \<noteq> []"
    by (simp add: example_requests)
  have h2: "password_param (request_header ''bEaReR neko'') = []"
    "code_Bearer_form (authorization (request_header ''bEaReR neko''))"
    by (simp_all add: example_requests code_Bearer_form_def)
  have h3: "password_param (request_cookie ''neko'') = []"
    "\<not> code_Bearer_form (authorization (request_cookie ''neko''))"
    "password_cookie (request_cookie ''neko'') = Some ''neko''"
    by (simp_all add: example_requests code_Bearer_form_def)
  have h4: "password_param request_bare = []" "\<not> code_Bearer_form (authorization request_bare)"
    "password_cookie request_bare = None"
    by (simp_all add: example_requests code_Bearer_form_def)
  have h5: "password_param (request_header ''Bearer abc'') = []"
    "authorization (request_header ''Bearer abc'') = ''Bearer abc''"
    "Password (config example_abc_manager) = ''abc''"
    "AdminPassword (config example_abc_manager) \<noteq> ''abc''"
    "mint_ok 32 = Inr ''c0ffee''"
    by (simp_all add: example_requests example_configs mint_ok_def)
  have h6: "spec_Bearer_form ''Bearer abc''" "length ''Bearer abc'' > 7"
    by (simp_all add: spec_Bearer_form_def)
  from t h1 have c1: "getToken (request_query ''neko'') = ''neko''"
    by (simp add: example_requests)
  from t h2 have c2: "getToken (request_header ''bEaReR neko'') = ''neko''"
    by (simp add: example_requests)
  from t h3 have c3: "getToken (request_cookie ''neko'') = ''neko''"
    by blast
  from t h4 have c4: "Authenticate mint_ok request_bare example_manager
     = (Inl (Errorf ''no password provided''), example_manager)"
    by blast
  from t h5 have c5: "\<exists>s m'. Authenticate mint_ok (request_header ''Bearer abc'') example_abc_manager
      = (Inr s, m') \<and> registered_as ''c0ffee'' False s example_abc_manager m'"
    by blast
  from t h6 have c6: "code_Bearer_form ''Bearer abc''"
    by blast
  from h1 c1 h2(2) c2 h3(2) c3 h4(3) c4 c5 h6(1) c6 show ?thesis by blast
qed

text \<open>
  C2, as stated, fails: the claim accepts the header only when the scheme is followed by
  a space. The request below has no query parameter and no cookie, and its header
  \<open>BearerXneko\<close> is not of that form, yet the token \<open>neko\<close> is extracted from it and
  \<open>Authenticate\<close> returns a session instead of the "no password provided" error.
\<close>

theorem bearer_without_space_counterexample:
  "password_param request_no_space = [] \<and>
   \<not> spec_Bearer_form (authorization request_no_space) \<and>
   password_cookie request_no_space = None \<and>
   getToken request_no_space = ''neko'' \<and>
   fst (Authenticate mint_ok request_no_space example_manager) = Inr (Dyn (Ptr 2))"
  by (simp add: example_requests spec_Bearer_form_def getToken_cases code_Bearer_form_def
      Authenticate_def example_configs example_config_def mint_ok_def manager_New_def
      Create_def Let_def)

text \<open>
  C9. The extracted token is empty exactly when the query parameter is empty or missing,
  the header is not a Bearer header with a character after the seventh, and the cookie
  is missing or empty. \<open>Authenticate\<close> then fails with "no password provided", whatever
  the configured passwords are; so whenever it succeeds, the token is not empty and
  equals a configured password, which is therefore not the empty one.
\<close>

theorem empty_token_rejected:
  "(getToken r = [] \<longleftrightarrow>
      password_param r = [] \<and> \<not> code_Bearer_form (authorization r) \<and>
      (password_cookie r = None \<or> password_cookie r = Some [])) \<and>
   (getToken r = [] \<longrightarrow> Authenticate N r m = (Inl (Errorf ''no password provided''), m)) \<and>
   (fst (Authenticate N' r' m') = Inr s \<longrightarrow>
      getToken r' \<noteq> [] \<and>
      (getToken r' = AdminPassword (config m') \<or> getToken r' = Password (config m')))"
proof -
  have "getToken r = [] \<longleftrightarrow>
      password_param r = [] \<and> \<not> code_Bearer_form (authorization r) \<and>
      (password_cookie r = None \<or> password_cookie r = Some [])"
    by (auto simp: getToken_cases code_Bearer_form_def split: option.splits)
  moreover have "getToken r' \<noteq> [] \<and>
      (getToken r' = AdminPassword (config m') \<or> getToken r' = Password (config m'))"
    if "fst (Authenticate N' r' m') = Inr s"
    using that by (auto simp: Authenticate_def Let_def split: if_splits sum.splits)
  ultimately show ?thesis
    using Authenticate_no_token [of r N m] by blast
qed

theorem empty_token_rejected_witness:
  "getToken (request_cookie []) = [] \<and>
   getToken (request_cookie []) = AdminPassword (config example_open_manager) \<and>
   Authenticate mint_ok (request_cookie []) example_open_manager
     = (Inl (Errorf ''no password provided''), example_open_manager) \<and>
   fst (Authenticate mint_ok (request_query ''neko'') example_open_manager) = Inr (Dyn (Ptr 2)) \<and>
   getToken (request_query ''neko'') \<noteq> []"
proof -
  note t = empty_token_rejected [of "request_cookie []" mint_ok example_open_manager
      mint_ok "request_query ''neko''" example_open_manager "Dyn (Ptr 2)"]
  have h1: "getToken (request_cookie []) = []"
    by (simp add: getToken_cases example_requests code_Bearer_form_def)
  have h2: "fst (Authenticate mint_ok (request_query ''neko'') example_open_manager) = Inr (Dyn (Ptr 2))"
    by (simp add: Authenticate_def getToken_cases example_requests example_configs mint_ok_def
        manager_New_def Create_def Let_def example_open_manager_def New_def)
  have a: "getToken (request_cookie []) = AdminPassword (config example_open_manager)"
    by (simp add: h1 example_configs)
  from t h1 have c1: "Authenticate mint_ok (request_cookie []) example_open_manager
     = (Inl (Errorf ''no password provided''), example_open_manager)"
    by blast
  from t h2 have c2: "getToken (request_query ''neko'') \<noteq> []"
    by blast
  from h1 a c1 h2 c2 show ?thesis by blast
qed




end
